theory Spec2Isabelle
  imports Main
begin

section \<open>JavaScript values handled by the server\<close>

text \<open>
  The server (\<^verbatim>\<open>src/index.ts\<close>) only ever touches values that came out of a JSON
  parser: the arguments of a tool call and the body of the upstream reply. A property
  read can in addition produce \<^verbatim>\<open>undefined\<close>. Numbers are IEEE doubles in the engine;
  the type of numbers is left open as \<open>'n\<close>, and the two engine operations on numbers
  that the program can reach are fields of the \<open>engine\<close> record below.

  An object is the list of its own properties, in insertion order, with distinct keys
  (what \<^verbatim>\<open>JSON.parse\<close> builds). Strings are lists of characters.
\<close>

datatype 'n jsval =
    JUndefined
  | JNull
  | JBool bool
  | JNum 'n
  | JStr string
  | JArr "'n jsval list"
  | JObj "(string \<times> 'n jsval) list"

text \<open>
  Runtime faults raised by the engine itself (a \<^verbatim>\<open>TypeError\<close>): reading a property
  of \<^verbatim>\<open>undefined\<close> or \<^verbatim>\<open>null\<close>, and converting to a string an object that has
  no callable \<^verbatim>\<open>toString\<close>/\<^verbatim>\<open>valueOf\<close> giving a primitive.
\<close>

datatype nullish = Undefined | Null

datatype fault =
    CannotReadProperty nullish string
  | CannotConvertToPrimitive

text \<open>The error codes of the protocol library that the handler uses.\<close>

datatype ErrorCode = MethodNotFound | InvalidParams | InternalError

text \<open>
  Everything the program can throw: \<^verbatim>\<open>new Error(msg)\<close>, an engine \<^verbatim>\<open>TypeError\<close>,
  and \<^verbatim>\<open>new McpError(code, msg)\<close> (with the message as passed to the constructor).
\<close>

datatype exn =
    Error string
  | TypeError fault
  | McpError ErrorCode string

text \<open>
  What the model leaves to the JavaScript engine and the protocol library: the text of
  a number, whether a number is truthy, the message text of an engine fault, and the
  \<^verbatim>\<open>message\<close> property the library gives an \<^verbatim>\<open>McpError\<close>.
\<close>

record 'n engine =
  number_to_string :: "'n \<Rightarrow> string"
  number_truthy :: "'n \<Rightarrow> bool"
  fault_message :: "fault \<Rightarrow> string"
  mcp_message :: "ErrorCode \<Rightarrow> string \<Rightarrow> string"

subsection \<open>Property reads\<close>

text \<open>
  \<^verbatim>\<open>v.key\<close> for the keys the program reads (\<^verbatim>\<open>messages\<close>, \<^verbatim>\<open>choices\<close>,
  \<^verbatim>\<open>message\<close>, \<^verbatim>\<open>content\<close>, \<^verbatim>\<open>citations\<close>): none of them is defined by a
  built-in prototype, so the read gives the own property of an object and
  \<^verbatim>\<open>undefined\<close> on every other value, except that it throws on
  \<^verbatim>\<open>undefined\<close> and \<^verbatim>\<open>null\<close>.
\<close>

fun get_prop :: "'n jsval \<Rightarrow> string \<Rightarrow> fault + 'n jsval" where
  "get_prop JUndefined k = Inl (CannotReadProperty Undefined k)"
| "get_prop JNull k = Inl (CannotReadProperty Null k)"
| "get_prop (JObj kvs) k = (case map_of kvs k of None \<Rightarrow> Inr JUndefined | Some v \<Rightarrow> Inr v)"
| "get_prop _ k = Inr JUndefined"

text \<open>
  \<^verbatim>\<open>v[0]\<close>: the first element of an array, the first character of a string, the
  own property \<^verbatim>\<open>"0"\<close> of an object; \<^verbatim>\<open>undefined\<close> when there is none.
\<close>

fun get_index0 :: "'n jsval \<Rightarrow> fault + 'n jsval" where
  "get_index0 JUndefined = Inl (CannotReadProperty Undefined ''0'')"
| "get_index0 JNull = Inl (CannotReadProperty Null ''0'')"
| "get_index0 (JArr xs) = (case xs of [] \<Rightarrow> Inr JUndefined | x # _ \<Rightarrow> Inr x)"
| "get_index0 (JStr s) = (case s of [] \<Rightarrow> Inr JUndefined | c # _ \<Rightarrow> Inr (JStr [c]))"
| "get_index0 (JObj kvs) = (case map_of kvs ''0'' of None \<Rightarrow> Inr JUndefined | Some v \<Rightarrow> Inr v)"
| "get_index0 _ = Inr JUndefined"

subsection \<open>Truthiness, arrays\<close>

fun truthy :: "'n engine \<Rightarrow> 'n jsval \<Rightarrow> bool" where
  "truthy eng JUndefined = False"
| "truthy eng JNull = False"
| "truthy eng (JBool b) = b"
| "truthy eng (JNum n) = number_truthy eng n"
| "truthy eng (JStr s) = (s \<noteq> [])"
| "truthy eng (JArr xs) = True"
| "truthy eng (JObj kvs) = True"

fun isArray :: "'n jsval \<Rightarrow> bool" where
  "isArray (JArr xs) = True"
| "isArray _ = False"

text \<open>The elements of an array; only used under \<open>isArray\<close>.\<close>

fun elements :: "'n jsval \<Rightarrow> 'n jsval list" where
  "elements (JArr xs) = xs"
| "elements _ = []"

subsection \<open>Conversion to a string\<close>

text \<open>
  The text of a non-negative integer-valued number (an array index plus one, an HTTP
  status): its decimal digits.
\<close>

function nat_to_string :: "nat \<Rightarrow> string" where
  "nat_to_string n =
     (if n < 10 then [''0123456789'' ! n]
      else nat_to_string (n div 10) @ [''0123456789'' ! (n mod 10)])"
  by pat_completeness auto
termination
  by (relation "measure (\<lambda>n. n)") auto

declare nat_to_string.simps [simp del]

text \<open>
  \<^verbatim>\<open>`${v}`\<close> and \<^verbatim>\<open>v + 'text'\<close> on a value from a JSON parser. An array is its
  elements joined by commas, \<^verbatim>\<open>null\<close> and \<^verbatim>\<open>undefined\<close> elements giving the empty
  string. A plain object gives \<^verbatim>\<open>[object Object]\<close>, unless an own property shadows
  \<^verbatim>\<open>toString\<close>: that property is not callable, the inherited \<^verbatim>\<open>valueOf\<close> returns
  the object itself, and the conversion throws.
\<close>

fun js_to_string :: "'n engine \<Rightarrow> 'n jsval \<Rightarrow> fault + string"
  and join_elements :: "'n engine \<Rightarrow> 'n jsval list \<Rightarrow> fault + string"
  and element_string :: "'n engine \<Rightarrow> 'n jsval \<Rightarrow> fault + string"
where
  "js_to_string eng JUndefined = Inr ''undefined''"
| "js_to_string eng JNull = Inr ''null''"
| "js_to_string eng (JBool b) = Inr (if b then ''true'' else ''false'')"
| "js_to_string eng (JNum n) = Inr (number_to_string eng n)"
| "js_to_string eng (JStr s) = Inr s"
| "js_to_string eng (JArr xs) = join_elements eng xs"
| "js_to_string eng (JObj kvs) =
     (if ''toString'' \<in> set (map fst kvs) then Inl CannotConvertToPrimitive
      else Inr ''[object Object]'')"
| "join_elements eng [] = Inr []"
| "join_elements eng [x] = element_string eng x"
| "join_elements eng (x # y # ys) =
     (case element_string eng x of
        Inl f \<Rightarrow> Inl f
      | Inr s \<Rightarrow>
          (case join_elements eng (y # ys) of
             Inl f \<Rightarrow> Inl f
           | Inr t \<Rightarrow> Inr (s @ '','' @ t)))"
| "element_string eng JUndefined = Inr []"
| "element_string eng JNull = Inr []"
| "element_string eng v = js_to_string eng v"

section \<open>The outbound HTTP call\<close>

text \<open>
  The argument of \<^verbatim>\<open>fetch\<close>. The field \<open>body\<close> holds the value handed to
  \<^verbatim>\<open>JSON.stringify\<close>; the request body on the wire is its JSON text.
\<close>

record 'n request =
  url :: string
  http_method :: string
  headers :: "(string \<times> string) list"
  body :: "'n jsval"

text \<open>
  What the program reads of a \<^verbatim>\<open>Response\<close>: \<^verbatim>\<open>ok\<close> (set by the platform when
  the status is in the range 200 to 299), \<^verbatim>\<open>status\<close>, \<^verbatim>\<open>statusText\<close>, and the
  outcomes of \<^verbatim>\<open>text()\<close> and \<^verbatim>\<open>json()\<close>. A rejected promise is \<open>Inl r\<close>, where
  \<open>r\<close> is the text that \<^verbatim>\<open>`${reason}`\<close> gives for the rejection reason.
\<close>

record 'n response =
  ok :: bool
  status :: nat
  statusText :: string
  body_text :: "string + string"
  body_json :: "string + 'n jsval"

text \<open>The network: what \<^verbatim>\<open>fetch\<close> settles to for a request.\<close>

type_synonym 'n network = "'n request \<Rightarrow> string + 'n response"

definition apiUrl :: string where
  "apiUrl = ''https://api.perplexity.ai/chat/completions''"

definition model :: string where
  "model = ''sonar-pro''"

text \<open>The request built at lines 146 to 161, for the credential \<open>key\<close>.\<close>

definition completion_request :: "string \<Rightarrow> 'n jsval \<Rightarrow> 'n request" where
  "completion_request key messages =
     \<lparr> url = apiUrl,
       http_method = ''POST'',
       headers = [(''Content-Type'', ''application/json''),
                  (''Authorization'', ''Bearer '' @ key)],
       body = JObj [(''model'', JStr model), (''messages'', messages)] \<rparr>"

text \<open>\<^verbatim>\<open>data.choices[0].message.content\<close> (line 188).\<close>

definition message_content :: "'n jsval \<Rightarrow> fault + 'n jsval" where
  "message_content data =
     (case get_prop data ''choices'' of
        Inl f \<Rightarrow> Inl f
      | Inr choices \<Rightarrow>
          (case get_index0 choices of
             Inl f \<Rightarrow> Inl f
           | Inr choice \<Rightarrow>
               (case get_prop choice ''message'' of
                  Inl f \<Rightarrow> Inl f
                | Inr message \<Rightarrow> get_prop message ''content'')))"

text \<open>
  The \<^verbatim>\<open>forEach\<close> of lines 193 to 195: \<open>index\<close> is the index of the head of the
  remaining citations.
\<close>

fun append_citations :: "'n engine \<Rightarrow> string \<Rightarrow> nat \<Rightarrow> 'n jsval list \<Rightarrow> fault + string" where
  "append_citations eng messageContent index [] = Inr messageContent"
| "append_citations eng messageContent index (citation # rest) =
     (case js_to_string eng citation of
        Inl f \<Rightarrow> Inl f
      | Inr c \<Rightarrow>
          append_citations eng
            (messageContent @ ''['' @ nat_to_string (index + 1) @ ''] '' @ c @ ''\<newline>'')
            (index + 1) rest)"

text \<open>Lines 187 to 198: the text composed from the parsed reply \<open>data\<close>.\<close>

definition compose_result :: "'n engine \<Rightarrow> 'n jsval \<Rightarrow> exn + 'n jsval" where
  "compose_result eng data =
     (case message_content data of
        Inl f \<Rightarrow> Inl (TypeError f)
      | Inr messageContent \<Rightarrow>
          (case get_prop data ''citations'' of
             Inl f \<Rightarrow> Inl (TypeError f)
           | Inr citations \<Rightarrow>
               if truthy eng citations \<and> isArray citations \<and> length (elements citations) > 0
               then
                 (case js_to_string eng messageContent of
                    Inl f \<Rightarrow> Inl (TypeError f)
                  | Inr s \<Rightarrow>
                      (case append_citations eng (s @ ''\<newline>\<newline>Citations:\<newline>'') 0
                              (elements citations) of
                         Inl f \<Rightarrow> Inl (TypeError f)
                       | Inr t \<Rightarrow> Inr (JStr t)))
               else Inr messageContent))"

text \<open>
  \<^verbatim>\<open>performChatCompletion\<close>: the requests handed to \<^verbatim>\<open>fetch\<close>, in order, and the
  value returned (\<open>Inr\<close>) or the exception thrown (\<open>Inl\<close>).
\<close>

definition performChatCompletion ::
  "'n engine \<Rightarrow> string \<Rightarrow> 'n network \<Rightarrow> 'n jsval \<Rightarrow> 'n request list \<times> (exn + 'n jsval)" where
  "performChatCompletion eng key net messages =
     (let req = completion_request key messages in
      ([req],
       case net req of
         Inl reason \<Rightarrow> Inl (Error (''Network error while calling Perplexity API: '' @ reason))
       | Inr response \<Rightarrow>
           if \<not> ok response then
             (let errorText =
                    (case body_text response of
                       Inl parseError \<Rightarrow> ''Unable to parse error response''
                     | Inr t \<Rightarrow> t)
              in Inl (Error (''Perplexity API error: '' @ nat_to_string (status response) @ '' ''
                              @ statusText response @ ''\<newline>'' @ errorText)))
           else
             (case body_json response of
                Inl jsonError \<Rightarrow>
                  Inl (Error (''Failed to parse JSON response from Perplexity API: '' @ jsonError))
              | Inr data \<Rightarrow> compose_result eng data)))"

section \<open>The call-tool handler\<close>

record 'n call_tool_request =
  name :: string
  arguments :: "'n jsval"

record 'n text_item =
  item_type :: string
  item_text :: "'n jsval"

record 'n call_tool_result =
  content :: "'n text_item list"
  isError :: bool

text \<open>\<^verbatim>\<open>error.message\<close>; every exception of the program is an \<^verbatim>\<open>Error\<close> instance.\<close>

fun exn_message :: "'n engine \<Rightarrow> exn \<Rightarrow> string" where
  "exn_message eng (Error m) = m"
| "exn_message eng (TypeError f) = fault_message eng f"
| "exn_message eng (McpError c m) = mcp_message eng c m"

definition invalid_arguments :: exn where
  "invalid_arguments =
     McpError InvalidParams ''Invalid arguments for perplexity_ask: \"messages\" must be an array''"

text \<open>
  The handler registered for \<^verbatim>\<open>CallToolRequestSchema\<close> (lines 93 to 130): the
  requests sent upstream and the response returned or the exception thrown.
\<close>

definition call_tool ::
  "'n engine \<Rightarrow> string \<Rightarrow> 'n network \<Rightarrow> 'n call_tool_request
     \<Rightarrow> 'n request list \<times> (exn + 'n call_tool_result)" where
  "call_tool eng key net request =
     (if name request \<noteq> ''perplexity_ask''
      then ([], Inl (McpError MethodNotFound (''Unknown tool: '' @ name request)))
      else
        (let args = arguments request in
         if \<not> truthy eng args then ([], Inl invalid_arguments)
         else
           (case get_prop args ''messages'' of
              Inl f \<Rightarrow> ([], Inl (TypeError f))
            | Inr messages \<Rightarrow>
                if \<not> truthy eng messages \<or> \<not> isArray messages
                then ([], Inl invalid_arguments)
                else
                  (case performChatCompletion eng key net messages of
                     (sent, Inr result) \<Rightarrow>
                       (sent, Inr \<lparr> content = [\<lparr> item_type = ''text'', item_text = result \<rparr>],
                                    isError = False \<rparr>)
                   | (sent, Inl error) \<Rightarrow>
                       (sent, Inl (McpError InternalError
                                     (''Error processing request: '' @ exn_message eng error)))))))"

section \<open>Start-up\<close>

text \<open>
  What \<^verbatim>\<open>console.error\<close> is given: a line of text, or the reason of a rejection.
\<close>

datatype diagnostic = Line string | Reason exn

text \<open>
  \<^verbatim>\<open>run\<close> (lines 201 to 205), given what \<^verbatim>\<open>this.server.connect(transport)\<close> settles
  to: the diagnostics written and the settlement of the promise returned.
\<close>

definition run :: "exn + unit \<Rightarrow> diagnostic list \<times> (exn + unit)" where
  "run connect =
     (case connect of
        Inl e \<Rightarrow> ([], Inl e)
      | Inr u \<Rightarrow> ([Line ''Perplexity Ask MCP Server running on stdio''], Inr u))"

text \<open>
  How the evaluation of the module ends: with an exception nobody catches, or with
  every promise settled and the diagnostics written so far. Nothing in the program calls
  \<^verbatim>\<open>process.exit\<close> or assigns \<^verbatim>\<open>process.exitCode\<close>.
\<close>

datatype process = Uncaught exn | Settled "diagnostic list"

text \<open>
  The top level of the module. \<open>pkg\<close> is the exception, if any, raised by lines 15 to 20
  (reading \<^verbatim>\<open>package.json\<close>); \<open>env_key\<close> is \<^verbatim>\<open>process.env.PERPLEXITY_API_KEY\<close>;
  \<open>connect\<close> is what connecting the transport settles to. Line 209 attaches
  \<^verbatim>\<open>console.error\<close> as the rejection handler of the promise of \<^verbatim>\<open>run\<close>.
  Constructing the server and registering the two handlers (lines 32 to 49) is taken
  not to throw.
\<close>

definition script :: "exn option \<Rightarrow> string option \<Rightarrow> exn + unit \<Rightarrow> process" where
  "script pkg env_key connect =
     (case pkg of
        Some e \<Rightarrow> Uncaught e
      | None \<Rightarrow>
          (case env_key of
             None \<Rightarrow> Uncaught (Error ''PERPLEXITY_API_KEY environment variable is required'')
           | Some k \<Rightarrow>
               if k = [] then Uncaught (Error ''PERPLEXITY_API_KEY environment variable is required'')
               else
                 (case run connect of
                    (out, Inl e) \<Rightarrow> Settled (out @ [Reason e])
                  | (out, Inr u) \<Rightarrow> Settled out)))"

text \<open>
  The exit status of the process: Node ends a process with status 1 on an uncaught
  exception; a process that ends with no exit status set ends with status 0.
\<close>

fun exit_status :: "process \<Rightarrow> nat" where
  "exit_status (Uncaught e) = 1"
| "exit_status (Settled out) = 0"

section \<open>Sample values\<close>

text \<open>
  An engine for concrete runs, with natural numbers as the only numbers, the fault
  messages of V8 and the message format of the protocol library.
\<close>

fun v8_message :: "fault \<Rightarrow> string" where
  "v8_message (CannotReadProperty Undefined k) =
     ''Cannot read properties of undefined (reading '' @ [CHR 0x27] @ k @ [CHR 0x27] @ '')''"
| "v8_message (CannotReadProperty Null k) =
     ''Cannot read properties of null (reading '' @ [CHR 0x27] @ k @ [CHR 0x27] @ '')''"
| "v8_message CannotConvertToPrimitive = ''Cannot convert object to primitive value''"

fun code_number :: "ErrorCode \<Rightarrow> string" where
  "code_number MethodNotFound = ''-32601''"
| "code_number InvalidParams = ''-32602''"
| "code_number InternalError = ''-32603''"

definition sample_engine :: "nat engine" where
  "sample_engine =
     \<lparr> number_to_string = nat_to_string,
       number_truthy = (\<lambda>n. n \<noteq> 0),
       fault_message = v8_message,
       mcp_message = (\<lambda>c m. ''MCP error '' @ code_number c @ '': '' @ m) \<rparr>"

text \<open>A network that answers every request with the same response.\<close>

definition reply_with :: "'n response \<Rightarrow> 'n network" where
  "reply_with r req = Inr r"

definition ping :: "nat jsval" where
  "ping = JArr [JObj [(''role'', JStr ''user''), (''content'', JStr ''ping'')]]"

definition ask_ping :: "nat call_tool_request" where
  "ask_ping = \<lparr> name = ''perplexity_ask'', arguments = JObj [(''messages'', ping)] \<rparr>"

text \<open>A 200 reply whose \<^verbatim>\<open>json()\<close> resolves to \<open>data\<close>.\<close>

definition ok_json :: "'n jsval \<Rightarrow> 'n response" where
  "ok_json data =
     \<lparr> ok = True, status = 200, statusText = ''OK'', body_text = Inr [], body_json = Inr data \<rparr>"

text \<open>
  Replies of the upstream service: an answer with two citations, one with an empty
  citation list, one whose message has no \<^verbatim>\<open>content\<close>, and a 429 whose body cannot
  be read.
\<close>

definition pong_cited :: "nat jsval" where
  "pong_cited =
     JObj [(''choices'', JArr [JObj [(''message'', JObj [(''content'', JStr ''pong'')])]]),
           (''citations'', JArr [JStr ''https://a'', JStr ''https://b''])]"

definition pong :: "nat jsval" where
  "pong =
     JObj [(''choices'', JArr [JObj [(''message'', JObj [(''content'', JStr ''pong'')])]]),
           (''citations'', JArr [])]"

definition too_many_requests :: "nat response" where
  "too_many_requests =
     \<lparr> ok = False, status = 429, statusText = ''Too Many Requests'',
       body_text = Inl ''TypeError: terminated'', body_json = Inl ''TypeError: terminated'' \<rparr>"

definition no_content :: "nat jsval" where
  "no_content = JObj [(''choices'', JArr [JObj [(''message'', JObj [(''role'', JStr ''assistant'')])]])]"

section \<open>Reference formulations\<close>

text \<open>The number a string of decimal digits denotes.\<close>

definition decimal_value :: "string \<Rightarrow> nat" where
  "decimal_value s = foldl (\<lambda>acc c. 10 * acc + (of_char c - 48)) 0 s"

text \<open>
  The citation block as the specification words it: after the heading, one line
  \<^verbatim>\<open>[i] citation\<close> per citation, numbered from 1 in the original order.
\<close>

definition citation_line :: "nat \<Rightarrow> string \<Rightarrow> string" where
  "citation_line i c = ''['' @ nat_to_string i @ ''] '' @ c @ ''\<newline>''"

definition citations_block :: "string list \<Rightarrow> string" where
  "citations_block cs =
     ''\<newline>\<newline>Citations:\<newline>'' @ concat (map2 citation_line [1 ..< Suc (length cs)] cs)"

section \<open>Auxiliary facts\<close>

lemma digit_value: "d < 10 \<Longrightarrow> of_char (''0123456789'' ! d) - 48 = (d::nat)"
proof -
  assume "d < 10"
  then have "d \<in> {0,1,2,3,4,5,6,7,8,9}" by auto
  then show ?thesis by auto
qed

text \<open>\<open>nat_to_string\<close> writes the decimal numeral of its argument.\<close>

lemma decimal_value_nat_to_string: "decimal_value (nat_to_string n) = n"
proof (induction n rule: nat_to_string.induct)
  case (1 n)
  show ?case
  proof (cases "n < 10")
    case True
    then show ?thesis
      by (subst nat_to_string.simps) (simp add: digit_value decimal_value_def)
  next
    case False
    with 1 have ih: "decimal_value (nat_to_string (n div 10)) = n div 10" by simp
    have "decimal_value (nat_to_string n)
            = 10 * decimal_value (nat_to_string (n div 10))
              + (of_char (''0123456789'' ! (n mod 10)) - 48)"
      using False by (subst nat_to_string.simps) (simp add: decimal_value_def)
    also have "\<dots> = 10 * (n div 10) + n mod 10"
      using ih digit_value [of "n mod 10"] by simp
    finally show ?thesis by simp
  qed
qed

text \<open>The loop over the citations writes the numbered lines, continuing at \<open>index\<close>.\<close>

lemma append_citations_lines:
  "map (js_to_string eng) cs = map Inr us \<Longrightarrow>
   append_citations eng acc i cs
     = Inr (acc @ concat (map2 citation_line [Suc i ..< Suc i + length us] us))"
proof (induction cs arbitrary: acc i us)
  case Nil
  then show ?case by simp
next
  case (Cons c cs)
  then obtain u us' where us: "us = u # us'" and u: "js_to_string eng c = Inr u"
    and rest: "map (js_to_string eng) cs = map Inr us'"
    by (cases us) auto
  have upt: "[Suc i ..< Suc i + length us] = Suc i # [Suc (Suc i) ..< Suc (Suc i) + length us']"
    by (subst upt_rec) (simp add: us)
  have "append_citations eng acc i (c # cs)
          = append_citations eng (acc @ citation_line (Suc i) u) (Suc i) cs"
    using u by (simp add: citation_line_def)
  also have "\<dots> = Inr ((acc @ citation_line (Suc i) u)
                 @ concat (map2 citation_line [Suc (Suc i) ..< Suc (Suc i) + length us'] us'))"
    by (rule Cons.IH [OF rest])
  also have "\<dots> = Inr (acc @ concat (map2 citation_line [Suc i ..< Suc i + length us] us))"
    unfolding upt by (simp add: us)
  finally show ?case .
qed

text \<open>Reading \<^verbatim>\<open>messages\<close> gives an array only off a truthy value.\<close>

lemma messages_array_truthy:
  "get_prop args ''messages'' = Inr (JArr ms) \<Longrightarrow> truthy eng args"
  by (cases args) auto

text \<open>An unknown tool name ends the handler at its first statement.\<close>

lemma call_tool_unknown_name:
  "name request \<noteq> ''perplexity_ask'' \<Longrightarrow>
   call_tool eng key net request
     = ([], Inl (McpError MethodNotFound (''Unknown tool: '' @ name request)))"
  by (simp add: call_tool_def)

text \<open>With the right name and an array of messages the handler reaches the client.\<close>

lemma call_tool_valid:
  assumes "name request = ''perplexity_ask''"
    and "get_prop (arguments request) ''messages'' = Inr (JArr ms)"
  shows "call_tool eng key net request =
     (case performChatCompletion eng key net (JArr ms) of
        (sent, Inr result) \<Rightarrow>
          (sent, Inr \<lparr> content = [\<lparr> item_type = ''text'', item_text = result \<rparr>],
                       isError = False \<rparr>)
      | (sent, Inl error) \<Rightarrow>
          (sent, Inl (McpError InternalError
                        (''Error processing request: '' @ exn_message eng error))))"
  using assms messages_array_truthy [OF assms(2), of eng]
  by (simp add: call_tool_def Let_def split: prod.splits sum.splits)

text \<open>A 2xx reply with a JSON body is turned into text by \<open>compose_result\<close>.\<close>

lemma performChatCompletion_ok:
  assumes "net (completion_request key messages) = Inr response"
    and "ok response" and "body_json response = Inr data"
  shows "performChatCompletion eng key net messages
           = ([completion_request key messages], compose_result eng data)"
  using assms by (simp add: performChatCompletion_def Let_def)

text \<open>A truthy value can be read for a property without a fault.\<close>

lemma get_prop_truthy: "truthy eng v \<Longrightarrow> \<exists>w. get_prop v k = Inr w"
  by (cases v) (auto split: option.splits)

text \<open>A body without \<^verbatim>\<open>choices\<close> faults at the index read.\<close>

lemma message_content_no_choices:
  "map_of kvs ''choices'' = None \<Longrightarrow>
   message_content (JObj kvs) = Inl (CannotReadProperty Undefined ''0'')"
  by (simp add: message_content_def)

text \<open>With a non-empty citation list the block of numbered lines follows the content.\<close>

lemma compose_result_citations:
  assumes "message_content data = Inr messageContent"
    and "js_to_string eng messageContent = Inr base"
    and "get_prop data ''citations'' = Inr (JArr cs)"
    and "cs \<noteq> []"
    and "map (js_to_string eng) cs = map Inr us"
  shows "compose_result eng data = Inr (JStr (base @ citations_block us))"
proof -
  have "append_citations eng (base @ ''\<newline>\<newline>Citations:\<newline>'') 0 cs
          = Inr ((base @ ''\<newline>\<newline>Citations:\<newline>'')
                   @ concat (map2 citation_line [Suc 0 ..< Suc 0 + length us] us))"
    by (rule append_citations_lines [OF assms(5)])
  with assms(1-4) show ?thesis
    by (simp add: compose_result_def citations_block_def)
qed

section \<open>The client: one request\<close>

text \<open>
  Claim C3. For every messages array, \<^verbatim>\<open>performChatCompletion\<close> hands exactly one
  request to \<^verbatim>\<open>fetch\<close>, whatever the network answers: a POST to
  \<^verbatim>\<open>https://api.perplexity.ai/chat/completions\<close> with the headers
  \<^verbatim>\<open>Content-Type: application/json\<close> and \<^verbatim>\<open>Authorization: Bearer\<close> followed by the
  credential, and with the JSON text of \<^verbatim>\<open>{model: "sonar-pro", messages}\<close> as body.
\<close>

theorem performChatCompletion_one_request:
  "fst (performChatCompletion eng key net messages)
     = [\<lparr> url = ''https://api.perplexity.ai/chat/completions'',
          http_method = ''POST'',
          headers = [(''Content-Type'', ''application/json''),
                     (''Authorization'', ''Bearer '' @ key)],
          body = JObj [(''model'', JStr ''sonar-pro''), (''messages'', messages)] \<rparr>]"
  by (simp add: performChatCompletion_def Let_def completion_request_def apiUrl_def model_def)

theorem performChatCompletion_one_request_witness:
  "fst (performChatCompletion sample_engine ''sk-test'' (reply_with (ok_json JNull)) ping)
     = [\<lparr> url = ''https://api.perplexity.ai/chat/completions'',
          http_method = ''POST'',
          headers = [(''Content-Type'', ''application/json''),
                     (''Authorization'', ''Bearer sk-test'')],
          body = JObj [(''model'', JStr ''sonar-pro''),
                       (''messages'',
                        JArr [JObj [(''role'', JStr ''user''), (''content'', JStr ''ping'')]])] \<rparr>]"
  using performChatCompletion_one_request
          [of sample_engine "''sk-test''" "reply_with (ok_json JNull)" ping]
  by (simp add: ping_def)

section \<open>The handler: rejected requests\<close>

text \<open>
  Claim C6. A call-tool request whose tool name is not \<^verbatim>\<open>perplexity_ask\<close> fails with
  a \<^verbatim>\<open>MethodNotFound\<close> error naming the tool, and no request is sent upstream: the
  client is not invoked.
\<close>

theorem unknown_tool_method_not_found:
  assumes "name request \<noteq> ''perplexity_ask''"
  shows "call_tool eng key net request
           = ([], Inl (McpError MethodNotFound (''Unknown tool: '' @ name request)))"
  using assms by (rule call_tool_unknown_name)

theorem unknown_tool_method_not_found_witness:
  "call_tool sample_engine ''sk-test'' (reply_with (ok_json JNull))
      \<lparr> name = ''not_perplexity_ask'', arguments = JObj [(''messages'', ping)] \<rparr>
     = ([], Inl (McpError MethodNotFound ''Unknown tool: not_perplexity_ask''))"
  using unknown_tool_method_not_found
          [of "\<lparr> name = ''not_perplexity_ask'', arguments = JObj [(''messages'', ping)] \<rparr>"
              sample_engine "''sk-test''" "reply_with (ok_json JNull)"]
  by simp

text \<open>
  Claim C7. A call-tool request that names \<^verbatim>\<open>perplexity_ask\<close> and whose arguments do
  not hold an array under \<^verbatim>\<open>messages\<close> (the arguments or the field are missing, or the
  field is anything but an array) fails with the \<^verbatim>\<open>InvalidParams\<close> error, and no
  request is sent upstream.
\<close>

theorem bad_messages_invalid_params:
  assumes "name request = ''perplexity_ask''"
    and "\<forall>ms. get_prop (arguments request) ''messages'' \<noteq> Inr (JArr ms)"
  shows "call_tool eng key net request
           = ([], Inl (McpError InvalidParams
                ''Invalid arguments for perplexity_ask: \"messages\" must be an array''))"
proof (cases "truthy eng (arguments request)")
  case False
  with assms(1) show ?thesis
    by (simp add: call_tool_def invalid_arguments_def)
next
  case True
  show ?thesis
  proof (cases "get_prop (arguments request) ''messages''")
    case (Inl f)
    with get_prop_truthy [OF True, of "''messages''"] show ?thesis by simp
  next
    case (Inr messages)
    with assms(2) have "\<not> isArray messages" by (cases messages) auto
    with assms(1) True Inr show ?thesis
      by (simp add: call_tool_def invalid_arguments_def)
  qed
qed

theorem bad_messages_invalid_params_witness:
  "call_tool sample_engine ''sk-test'' (reply_with (ok_json JNull))
      \<lparr> name = ''perplexity_ask'', arguments = JObj [] \<rparr>
     = ([], Inl (McpError InvalidParams
          ''Invalid arguments for perplexity_ask: \"messages\" must be an array''))
   \<and> call_tool sample_engine ''sk-test'' (reply_with (ok_json JNull))
      \<lparr> name = ''perplexity_ask'', arguments = JObj [(''messages'', JStr ''hello'')] \<rparr>
     = ([], Inl (McpError InvalidParams
          ''Invalid arguments for perplexity_ask: \"messages\" must be an array''))"
  using bad_messages_invalid_params
          [of "\<lparr> name = ''perplexity_ask'', arguments = JObj [] \<rparr>"
              sample_engine "''sk-test''" "reply_with (ok_json JNull)"]
        bad_messages_invalid_params
          [of "\<lparr> name = ''perplexity_ask'', arguments = JObj [(''messages'', JStr ''hello'')] \<rparr>"
              sample_engine "''sk-test''" "reply_with (ok_json JNull)"]
  by simp

text \<open>
  Claim C10. The tool name is checked before the arguments: with a name other than
  \<^verbatim>\<open>perplexity_ask\<close> the outcome is the \<^verbatim>\<open>MethodNotFound\<close> error for every value of
  the arguments, malformed ones included, and it is never an \<^verbatim>\<open>InvalidParams\<close> error.
\<close>

theorem name_checked_before_arguments:
  assumes "name request \<noteq> ''perplexity_ask''"
  shows "snd (call_tool eng key net request)
           = Inl (McpError MethodNotFound (''Unknown tool: '' @ name request))
       \<and> (\<forall>msg. snd (call_tool eng key net request) \<noteq> Inl (McpError InvalidParams msg))"
  using assms by (simp add: call_tool_unknown_name)

theorem name_checked_before_arguments_witness:
  "snd (call_tool sample_engine ''sk-test'' (reply_with (ok_json JNull))
          \<lparr> name = ''search'', arguments = JObj [(''messages'', JNum 7)] \<rparr>)
     = Inl (McpError MethodNotFound ''Unknown tool: search'')
   \<and> snd (call_tool sample_engine ''sk-test'' (reply_with (ok_json JNull))
          \<lparr> name = ''search'', arguments = JUndefined \<rparr>)
     = Inl (McpError MethodNotFound ''Unknown tool: search'')"
  using name_checked_before_arguments
          [of "\<lparr> name = ''search'', arguments = JObj [(''messages'', JNum 7)] \<rparr>"
              sample_engine "''sk-test''" "reply_with (ok_json JNull)"]
        name_checked_before_arguments
          [of "\<lparr> name = ''search'', arguments = JUndefined \<rparr>"
              sample_engine "''sk-test''" "reply_with (ok_json JNull)"]
  by simp

section \<open>The client: composing the result\<close>

text \<open>
  Claim C4. For every 2xx reply whose JSON body has a non-empty \<^verbatim>\<open>citations\<close> array,
  the text returned is the base content \<^verbatim>\<open>choices[0].message.content\<close>, then a blank
  line, the line \<^verbatim>\<open>Citations:\<close>, and one line \<^verbatim>\<open>[i] citation\<close> per citation, in
  the original order and numbered from 1. Here \<open>base\<close> and \<open>us\<close> are the texts of the
  content and of the citations; for strings, the types the program declares, they are
  the strings themselves. For the citations \<^verbatim>\<open>https://a\<close> and \<^verbatim>\<open>https://b\<close> the
  text ends as the instance below shows.
\<close>

theorem citations_appended:
  assumes "net (completion_request key messages) = Inr response"
    and "ok response"
    and "body_json response = Inr data"
    and "message_content data = Inr messageContent"
    and "js_to_string eng messageContent = Inr base"
    and "get_prop data ''citations'' = Inr (JArr cs)"
    and "cs \<noteq> []"
    and "map (js_to_string eng) cs = map Inr us"
  shows "snd (performChatCompletion eng key net messages)
           = Inr (JStr (base @ ''\<newline>\<newline>Citations:\<newline>''
                          @ concat (map2 citation_line [1 ..< Suc (length us)] us)))"
proof -
  have "performChatCompletion eng key net messages
          = ([completion_request key messages], compose_result eng data)"
    using assms(1-3) by (rule performChatCompletion_ok [of net key messages response data eng])
  then show ?thesis
    using compose_result_citations [OF assms(4-8)] by (simp add: citations_block_def)
qed

theorem citations_appended_witness:
  "message_content pong_cited = Inr (JStr ''pong'')
   \<and> get_prop pong_cited ''citations'' = Inr (JArr [JStr ''https://a'', JStr ''https://b''])
   \<and> snd (performChatCompletion sample_engine ''sk-test'' (reply_with (ok_json pong_cited)) ping)
     = Inr (JStr (''pong'' @ ''\<newline>\<newline>Citations:\<newline>[1] https://a\<newline>[2] https://b\<newline>''))"
  using citations_appended
          [of "reply_with (ok_json pong_cited)" "''sk-test''" ping "ok_json pong_cited" pong_cited
              "JStr ''pong''" sample_engine "''pong''" "[JStr ''https://a'', JStr ''https://b'']"
              "[''https://a'', ''https://b'']"]
  by (simp add: reply_with_def ok_json_def pong_cited_def message_content_def citation_line_def
        nat_to_string.simps upt_rec)

text \<open>
  Claim C5. For every 2xx reply whose JSON body has no \<^verbatim>\<open>citations\<close> field, or an
  empty array there, the value returned is exactly the base content
  \<^verbatim>\<open>choices[0].message.content\<close>: nothing is appended.
\<close>

theorem no_citations_plain_content:
  assumes "net (completion_request key messages) = Inr response"
    and "ok response"
    and "body_json response = Inr data"
    and "message_content data = Inr messageContent"
    and "get_prop data ''citations'' = Inr JUndefined \<or> get_prop data ''citations'' = Inr (JArr [])"
  shows "snd (performChatCompletion eng key net messages) = Inr messageContent"
proof -
  have "performChatCompletion eng key net messages
          = ([completion_request key messages], compose_result eng data)"
    using assms(1-3) by (rule performChatCompletion_ok [of net key messages response data eng])
  then show ?thesis
    using assms(4,5) by (auto simp add: compose_result_def)
qed

theorem no_citations_plain_content_witness:
  "message_content pong = Inr (JStr ''pong'')
   \<and> get_prop pong ''citations'' = Inr (JArr [])
   \<and> snd (performChatCompletion sample_engine ''sk-test'' (reply_with (ok_json pong)) ping)
     = Inr (JStr ''pong'')"
  using no_citations_plain_content
          [of "reply_with (ok_json pong)" "''sk-test''" ping "ok_json pong" pong
              "JStr ''pong''" sample_engine]
  by (simp add: reply_with_def ok_json_def pong_def message_content_def)

section \<open>The client: upstream errors\<close>

text \<open>
  Claim C8. For every reply that is not \<^verbatim>\<open>ok\<close> (a status outside 200 to 299),
  \<^verbatim>\<open>performChatCompletion\<close> throws an error whose message holds the decimal status
  code (see \<open>decimal_value_nat_to_string\<close>), the status text and the decoded body, with
  the fixed text \<^verbatim>\<open>Unable to parse error response\<close> in place of the body when
  decoding it fails.
\<close>

theorem http_error_message:
  assumes "net (completion_request key messages) = Inr response"
    and "\<not> ok response"
  shows "snd (performChatCompletion eng key net messages)
           = Inl (Error (''Perplexity API error: '' @ nat_to_string (status response) @ '' ''
                           @ statusText response @ ''\<newline>''
                           @ (case body_text response of
                                Inl reason \<Rightarrow> ''Unable to parse error response''
                              | Inr decoded \<Rightarrow> decoded)))"
  using assms by (simp add: performChatCompletion_def Let_def)

theorem http_error_message_witness:
  "\<not> ok too_many_requests
   \<and> snd (performChatCompletion sample_engine ''sk-test'' (reply_with too_many_requests) ping)
     = Inl (Error ''Perplexity API error: 429 Too Many Requests\<newline>Unable to parse error response'')"
  using http_error_message
          [of "reply_with too_many_requests" "''sk-test''" ping too_many_requests sample_engine]
  by (simp add: reply_with_def too_many_requests_def nat_to_string.simps)

section \<open>The handler: answers\<close>

text \<open>
  Claim C9. For every call-tool request that names \<^verbatim>\<open>perplexity_ask\<close> with an array
  of messages, when \<^verbatim>\<open>performChatCompletion\<close> returns a result, the response holds
  exactly one content item, of type \<^verbatim>\<open>text\<close>, with that result as its text, and
  \<^verbatim>\<open>isError\<close> is false.
\<close>

theorem success_single_text_item:
  assumes "name request = ''perplexity_ask''"
    and "get_prop (arguments request) ''messages'' = Inr (JArr ms)"
    and "performChatCompletion eng key net (JArr ms) = (sent, Inr result)"
  shows "call_tool eng key net request
           = (sent, Inr \<lparr> content = [\<lparr> item_type = ''text'', item_text = result \<rparr>],
                          isError = False \<rparr>)"
  using call_tool_valid [OF assms(1,2), of eng key net] assms(3) by simp

theorem success_single_text_item_witness:
  "snd (performChatCompletion sample_engine ''sk-test'' (reply_with (ok_json pong)) ping)
     = Inr (JStr ''pong'')
   \<and> call_tool sample_engine ''sk-test'' (reply_with (ok_json pong)) ask_ping
     = ([completion_request ''sk-test'' ping],
        Inr \<lparr> content = [\<lparr> item_type = ''text'', item_text = JStr ''pong'' \<rparr>],
              isError = False \<rparr>)"
  using success_single_text_item
          [of ask_ping "elements ping" sample_engine "''sk-test''"
              "reply_with (ok_json pong)" "[completion_request ''sk-test'' ping]" "JStr ''pong''"]
  by (simp add: ask_ping_def ping_def performChatCompletion_def Let_def reply_with_def
        ok_json_def pong_def compose_result_def message_content_def)

text \<open>
  Claim C1, as amended. When reading \<^verbatim>\<open>choices[0].message.content\<close> off the body of a
  2xx reply faults (the body, its \<^verbatim>\<open>choices\<close>, the first choice or its
  \<^verbatim>\<open>message\<close> is \<^verbatim>\<open>undefined\<close> or \<^verbatim>\<open>null\<close>), the fault is caught by the
  \<^verbatim>\<open>try\<close> of the handler: the call fails with an \<^verbatim>\<open>InternalError\<close> protocol error
  whose message is \<^verbatim>\<open>Error processing request:\<close> followed by the message of the fault.
\<close>

theorem shape_fault_is_internal_error:
  assumes "name request = ''perplexity_ask''"
    and "get_prop (arguments request) ''messages'' = Inr (JArr ms)"
    and "net (completion_request key (JArr ms)) = Inr response"
    and "ok response"
    and "body_json response = Inr data"
    and "message_content data = Inl f"
  shows "call_tool eng key net request
           = ([completion_request key (JArr ms)],
              Inl (McpError InternalError
                     (''Error processing request: '' @ fault_message eng f)))"
proof -
  have "performChatCompletion eng key net (JArr ms)
          = ([completion_request key (JArr ms)], compose_result eng data)"
    using assms(3-5) by (rule performChatCompletion_ok [of net key "JArr ms" response data eng])
  moreover have "compose_result eng data = Inl (TypeError f)"
    using assms(6) by (simp add: compose_result_def)
  ultimately show ?thesis
    using call_tool_valid [OF assms(1,2), of eng key net] by simp
qed

theorem shape_fault_is_internal_error_witness:
  "message_content (JObj [(''error'', JStr ''overloaded'')] :: nat jsval)
     = Inl (CannotReadProperty Undefined ''0'')
   \<and> call_tool sample_engine ''sk-test'' (reply_with (ok_json (JObj [(''error'', JStr ''overloaded'')]))) ask_ping
     = ([completion_request ''sk-test'' ping],
        Inl (McpError InternalError
          (''Error processing request: Cannot read properties of undefined (reading ''
             @ [CHR 0x27] @ ''0'' @ [CHR 0x27] @ '')'')))"
  using shape_fault_is_internal_error
          [of ask_ping "elements ping" "reply_with (ok_json (JObj [(''error'', JStr ''overloaded'')]))"
              "''sk-test''" "ok_json (JObj [(''error'', JStr ''overloaded'')])"
              "JObj [(''error'', JStr ''overloaded'')]" "CannotReadProperty Undefined ''0''"
              sample_engine]
  by (simp add: ask_ping_def ping_def reply_with_def ok_json_def message_content_def
        sample_engine_def)

text \<open>
  The claim as first worded (such a reply gives an uncaught fault, not a protocol error)
  fails: for the body \<^verbatim>\<open>{}\<close> the read faults and the handler answers with the
  \<^verbatim>\<open>InternalError\<close> error, not with the fault; and for a body whose message has no
  \<^verbatim>\<open>content\<close> nothing faults at all, the call succeeds with \<^verbatim>\<open>undefined\<close> as text.
\<close>

theorem shape_fault_uncaught_counterexample:
  "message_content (JObj [] :: nat jsval) = Inl (CannotReadProperty Undefined ''0'')
   \<and> snd (call_tool sample_engine ''sk-test'' (reply_with (ok_json (JObj []))) ask_ping)
       \<noteq> Inl (TypeError (CannotReadProperty Undefined ''0''))
   \<and> snd (call_tool sample_engine ''sk-test'' (reply_with (ok_json (JObj []))) ask_ping)
       = Inl (McpError InternalError
           (''Error processing request: Cannot read properties of undefined (reading ''
              @ [CHR 0x27] @ ''0'' @ [CHR 0x27] @ '')''))
   \<and> message_content no_content = Inr JUndefined
   \<and> snd (call_tool sample_engine ''sk-test'' (reply_with (ok_json no_content)) ask_ping)
       = Inr \<lparr> content = [\<lparr> item_type = ''text'', item_text = JUndefined \<rparr>], isError = False \<rparr>"
  by (simp add: call_tool_def ask_ping_def ping_def performChatCompletion_def Let_def reply_with_def
        ok_json_def compose_result_def message_content_def sample_engine_def no_content_def)

section \<open>Start-up and exit\<close>

text \<open>
  Claim C2, as amended. When the credential variable is absent or empty the module ends
  with an uncaught exception, so the process ends with status 1. When the credential is
  there and the promise of \<^verbatim>\<open>run\<close> rejects, the rejection is handled: its reason is
  written to the diagnostic stream, nothing is left uncaught and no exit status is set,
  so the exit status is 0.
\<close>

theorem startup_exit_status:
  "((env_key = None \<or> env_key = Some []) \<longrightarrow>
       (\<exists>e. script pkg env_key connect = Uncaught e)
       \<and> exit_status (script pkg env_key connect) = 1)
   \<and> (k \<noteq> [] \<longrightarrow>
       script None (Some k) (Inl e) = Settled [Reason e]
       \<and> exit_status (script None (Some k) (Inl e)) = 0)"
  by (auto simp add: script_def run_def split: option.splits)

theorem startup_exit_status_witness:
  "script None None (Inr ())
     = Uncaught (Error ''PERPLEXITY_API_KEY environment variable is required'')
   \<and> exit_status (script None None (Inr ())) = 1
   \<and> script None (Some ''sk-test'') (Inl (Error ''transport failed''))
       = Settled [Reason (Error ''transport failed'')]
   \<and> exit_status (script None (Some ''sk-test'') (Inl (Error ''transport failed''))) = 0"
  using startup_exit_status [of None None "Inr ()" "''sk-test''" "Error ''transport failed''"]
  by (simp add: script_def)

text \<open>
  The claim as first worded (a rejected \<^verbatim>\<open>run\<close> promise ends the process with a
  non-zero status) fails: with the credential set and the transport failing to connect,
  the exit status is not non-zero.
\<close>

theorem run_rejection_exit_counterexample:
  "run (Inl (Error ''transport failed'')) = ([], Inl (Error ''transport failed''))
   \<and> \<not> exit_status (script None (Some ''sk-test'') (Inl (Error ''transport failed''))) \<noteq> 0"
  by (simp add: script_def run_def)

end
